theory Spec2Isabelle
  imports Main
begin

section \<open>The text-editing widget\<close>

text \<open>
  The editor component of \<^verbatim>\<open>src/components/note-editor.tsx\<close> talks to a text-editing
  widget through four operations: it reads the document (\<^verbatim>\<open>sliceDoc\<close>,
  \<^verbatim>\<open>sliceString\<close>), reads the selection, matches a pattern before the cursor
  (\<^verbatim>\<open>matchBefore\<close>) and submits one transaction (\<^verbatim>\<open>dispatch\<close>).

  A document is a JavaScript string. One \<^typ>\<open>char\<close> stands for one code unit, a line
  break is the single character \<^term>\<open>CHR 0x0A\<close>, and offsets count characters from 0.
\<close>

record sel_range =
  anchor :: nat
  head :: nat



record editor_state =
  doc :: string
  ranges :: "sel_range list"
  mainIndex :: nat

text \<open>
  \<^verbatim>\<open>doc.sliceString(from, to)\<close> and \<^verbatim>\<open>state.sliceDoc(from, to)\<close>: the characters at
  offsets \<open>from \<le> i < to\<close>, clipped to the document.
\<close>

definition sliceString :: "string \<Rightarrow> nat \<Rightarrow> nat \<Rightarrow> string" where
  "sliceString d from to = take (to - from) (drop from d)"

definition sliceDoc :: "editor_state \<Rightarrow> nat \<Rightarrow> nat \<Rightarrow> string" where
  "sliceDoc s from to = sliceString (doc s) from to"

text \<open>
  A transaction as the component builds it: one change \<^verbatim>\<open>{from, to, insert}\<close> and a new
  selection \<^verbatim>\<open>{anchor}\<close>. The widget calls the component with
  \<open>from \<le> to \<le> length (doc s)\<close>; \<open>dispatch\<close> splices the text and leaves a single
  collapsed cursor.
\<close>

record change =
  change_from :: nat
  change_to :: nat
  insert_text :: string

record transaction =
  changes :: change
  selection_anchor :: nat

definition dispatch :: "transaction \<Rightarrow> editor_state \<Rightarrow> editor_state" where
  "dispatch tr s =
     \<lparr>doc = take (change_from (changes tr)) (doc s) @ insert_text (changes tr)
              @ drop (change_to (changes tr)) (doc s),
      ranges = [\<lparr>anchor = selection_anchor tr, head = selection_anchor tr\<rparr>],
      mainIndex = 0\<rparr>"

section \<open>Bracket consumption\<close>

text \<open>
  The three apply callbacks share two lines:
  \<^verbatim>\<open>const hasClosingBrackets = view.state.sliceDoc(to, to + 2) === "]]"\<close> and
  \<^verbatim>\<open>changes: { from, to: hasClosingBrackets ? to + 2 : to, insert: text }\<close>,
  \<^verbatim>\<open>selection: { anchor: from + text.length }\<close>.
\<close>

definition hasClosingBrackets :: "editor_state \<Rightarrow> nat \<Rightarrow> bool" where
  "hasClosingBrackets s to \<longleftrightarrow> sliceDoc s to (to + 2) = '']]''"

definition consumedTo :: "editor_state \<Rightarrow> nat \<Rightarrow> nat" where
  "consumedTo s to = (if hasClosingBrackets s to then to + 2 else to)"

text \<open>
  The effect of those two lines for an inserted \<open>text\<close>, used to state what each apply
  callback does.
\<close>

definition insertReference :: "string \<Rightarrow> editor_state \<Rightarrow> nat \<Rightarrow> nat \<Rightarrow> editor_state" where
  "insertReference text s from to =
     dispatch \<lparr>changes = \<lparr>change_from = from, change_to = consumedTo s to, insert_text = text\<rparr>,
               selection_anchor = from + length text\<rparr> s"

section \<open>Completion options and their apply callbacks\<close>

text \<open>
  An apply callback \<^verbatim>\<open>(view, completion, from, to) => void\<close> changes the widget and, for
  the create-note option, calls \<^verbatim>\<open>upsertNote\<close> and reads \<^verbatim>\<open>Date.now()\<close>. The world it
  acts on holds the widget's state, the clock reading and the list of arguments
  \<^verbatim>\<open>upsertNote\<close> has been called with (latest last).
\<close>

record draft =
  draft_id :: string
  draft_rawBody :: string

record world =
  view :: editor_state
  now :: nat
  upserted :: "draft list"

record completion =
  label :: string
  detail :: "string option"
  info :: "string option"
  apply_fn :: "(world \<Rightarrow> nat \<Rightarrow> nat \<Rightarrow> world) option"

record completion_result =
  result_from :: nat
  options :: "completion list"
  filter_flag :: "bool option"

subsection \<open>Numbers to strings\<close>

text \<open>\<^verbatim>\<open>String(n)\<close> and \<^verbatim>\<open>n.toString()\<close> for an integer \<open>n\<close>, and \<^verbatim>\<open>s.padStart(k, "0")\<close>.\<close>

definition digit_char :: "nat \<Rightarrow> char" where
  "digit_char d = ''0123456789'' ! d"

text \<open>
  The decimal digits of \<open>n\<close>, most significant first, put in front of \<open>acc\<close>.
\<close>

fun decimal_digits :: "nat \<Rightarrow> string \<Rightarrow> string" where
  "decimal_digits n acc =
     (if n < 10 then digit_char n # acc
      else decimal_digits (n div 10) (digit_char (n mod 10) # acc))"

definition toString_nat :: "nat \<Rightarrow> string" where
  "toString_nat n = decimal_digits n []"

definition toString_int :: "int \<Rightarrow> string" where
  "toString_int i = (if 0 \<le> i then toString_nat (nat i) else CHR ''-'' # toString_nat (nat (- i)))"

definition padStart :: "nat \<Rightarrow> string \<Rightarrow> string" where
  "padStart k s = replicate (k - length s) (CHR ''0'') @ s"

subsection \<open>The date option\<close>

definition date_apply :: "string \<Rightarrow> world \<Rightarrow> nat \<Rightarrow> nat \<Rightarrow> world" where
  "date_apply dateString w from to =
     (let text = ''[['' @ dateString @ '']]'';
          closing = hasClosingBrackets (view w) to
      in w\<lparr>view := dispatch
            \<lparr>changes = \<lparr>change_from = from, change_to = (if closing then to + 2 else to),
                         insert_text = text\<rparr>,
             selection_anchor = from + length text\<rparr> (view w)\<rparr>)"

subsection \<open>The note-link option\<close>

text \<open>
  A search result is a pair \<^verbatim>\<open>[id, note]\<close>; the callback reads \<^verbatim>\<open>note?.rawBody\<close> and
  \<^verbatim>\<open>note?.title\<close>, so the note and its title may be missing. An empty title is falsy.
\<close>

record stored_note =
  rawBody :: string
  title :: "string option"

definition title_suffix :: "stored_note option \<Rightarrow> string" where
  "title_suffix n =
     (case n of
        None \<Rightarrow> []
      | Some m \<Rightarrow> (case title m of
                    None \<Rightarrow> []
                  | Some t \<Rightarrow> (if t \<noteq> [] then ''|'' @ t else [])))"

definition note_apply :: "string \<Rightarrow> stored_note option \<Rightarrow> world \<Rightarrow> nat \<Rightarrow> nat \<Rightarrow> world" where
  "note_apply ident n w from to =
     (let text = ''[['' @ ident @ title_suffix n @ '']]'';
          closing = hasClosingBrackets (view w) to
      in w\<lparr>view := dispatch
            \<lparr>changes = \<lparr>change_from = from, change_to = (if closing then to + 2 else to),
                         insert_text = text\<rparr>,
             selection_anchor = from + length text\<rparr> (view w)\<rparr>)"

subsection \<open>The create-note option\<close>

definition create_apply :: "string \<Rightarrow> world \<Rightarrow> nat \<Rightarrow> nat \<Rightarrow> world" where
  "create_apply query w from to =
     (let n = \<lparr>draft_id = toString_nat (now w),
               draft_rawBody = ''# '' @ query @ [CHR 0x0A, CHR 0x0A] @ ''#inbox''\<rparr>;
          w1 = w\<lparr>upserted := upserted w @ [n]\<rparr>;
          text = ''[['' @ draft_id n @ ''|'' @ query @ '']]'';
          closing = hasClosingBrackets (view w1) to
      in w1\<lparr>view := dispatch
            \<lparr>changes = \<lparr>change_from = from, change_to = (if closing then to + 2 else to),
                         insert_text = text\<rparr>,
             selection_anchor = from + length text\<rparr> (view w1)\<rparr>)"

definition createNewNoteOption :: "string \<Rightarrow> completion" where
  "createNewNoteOption query =
     \<lparr>label = ''Create new note '' @ [CHR 0x22] @ query @ [CHR 0x22],
      detail = None, info = None, apply_fn = Some (create_apply query)\<rparr>"

section \<open>Matching before the cursor\<close>

text \<open>
  \<^verbatim>\<open>context.matchBefore(expr)\<close> of the widget's completion library looks at the current
  line only, at most 250 characters back from the cursor, anchors the expression at the
  cursor (\<^verbatim>\<open>(?:expr)$\<close>) and takes the leftmost start from which it matches:
  \<^verbatim>\<open>
  let line = this.state.doc.lineAt(this.pos)
  let start = Math.max(line.from, this.pos - 250)
  let str = line.text.slice(start - line.from, this.pos - line.from)
  let found = str.search(ensureAnchor(expr, false))
  return found < 0 ? null : {from: start + found, to: this.pos, text: str.slice(found)}
  \<close>
  An expression is given by the set of strings it matches as a whole; \<open>search\<close> is
  \<^verbatim>\<open>String.prototype.search\<close> for the anchored expression.
\<close>

record completion_context =
  documentText :: string
  pos :: nat

record matched =
  match_from :: nat
  match_to :: nat
  match_text :: string

fun search :: "(string \<Rightarrow> bool) \<Rightarrow> string \<Rightarrow> nat option" where
  "search re [] = (if re [] then Some 0 else None)"
| "search re (c # cs) = (if re (c # cs) then Some 0 else map_option Suc (search re cs))"

definition line_before :: "completion_context \<Rightarrow> string" where
  "line_before ctx =
     rev (takeWhile (\<lambda>c. c \<noteq> CHR 0x0A) (rev (take (pos ctx) (documentText ctx))))"

definition matchBefore :: "(string \<Rightarrow> bool) \<Rightarrow> completion_context \<Rightarrow> matched option" where
  "matchBefore re ctx =
     (let line_from = pos ctx - length (line_before ctx);
          start = max line_from (pos ctx - 250);
          str = drop (start - line_from) (line_before ctx)
      in case search re str of
           None \<Rightarrow> None
         | Some found \<Rightarrow>
             Some \<lparr>match_from = start + found, match_to = pos ctx, match_text = drop found str\<rparr>)"

subsection \<open>The three trigger expressions\<close>

text \<open>
  \<^verbatim>\<open>\w\<close> is \<^verbatim>\<open>[A-Za-z0-9_]\<close>, \<^verbatim>\<open>\d\<close> is \<^verbatim>\<open>[0-9]\<close>. The class \<^verbatim>\<open>[^\]|^|]\<close> is negated by
  its first \<^verbatim>\<open>^\<close> and lists the characters \<^verbatim>\<open>]\<close>, \<^verbatim>\<open>|\<close>, \<^verbatim>\<open>^\<close>, \<^verbatim>\<open>|\<close>.
\<close>

definition word_char :: "char \<Rightarrow> bool" where
  "word_char c \<longleftrightarrow>
     c \<in> set ''ABCDEFGHIJKLMNOPQRSTUVWXYZabcdefghijklmnopqrstuvwxyz0123456789_''"

definition decimal_char :: "char \<Rightarrow> bool" where
  "decimal_char c \<longleftrightarrow> c \<in> set ''0123456789''"

definition link_char :: "char \<Rightarrow> bool" where
  "link_char c \<longleftrightarrow> c \<notin> set '']|^|''"

definition tag_char :: "char \<Rightarrow> bool" where
  "tag_char c \<longleftrightarrow>
     word_char c \<or> c = CHR ''-'' \<or> c = CHR ''_'' \<or> decimal_char c \<or> c = CHR ''/''"

text \<open>\<^verbatim>\<open>/\[\[[^\]|^|]*/\<close>, the note provider's expression.\<close>

definition note_re :: "string \<Rightarrow> bool" where
  "note_re s \<longleftrightarrow> take 2 s = ''[['' \<and> list_all link_char (drop 2 s)"

text \<open>\<^verbatim>\<open>/(\[\[[^\]|^|]*|\w*)/\<close>, the date provider's expression.\<close>

definition date_re :: "string \<Rightarrow> bool" where
  "date_re s \<longleftrightarrow> note_re s \<or> list_all word_char s"

text \<open>\<^verbatim>\<open>/#[\w\-_\d/]*/\<close>, the tag provider's expression.\<close>

definition tag_re :: "string \<Rightarrow> bool" where
  "tag_re s \<longleftrightarrow> take 1 s = ''#'' \<and> list_all tag_char (drop 1 s)"

section \<open>The providers\<close>

text \<open>
  The collaborators the providers call but do not define: the date parser
  (\<^verbatim>\<open>parseDate\<close> of chrono-node, a date or \<^verbatim>\<open>null\<close>), the two date formatters, the tag
  index (\<open>tagNames\<close> is \<^verbatim>\<open>Object.keys(getTags())\<close>), the note search (a ranked list of
  \<^verbatim>\<open>[id, note]\<close> pairs) and the frontmatter parser (\<open>parseFrontmatter\<close> gives the
  \<^verbatim>\<open>content\<close> field of its result, which may be undefined).
\<close>

record js_date =
  getFullYear :: int
  getMonth :: int
  getDate :: int

record collaborators =
  parseDate :: "string \<Rightarrow> js_date option"
  formatDate :: "string \<Rightarrow> string"
  formatDateDistance :: "string \<Rightarrow> string"
  tagNames :: "string list"
  searchNotes :: "string \<Rightarrow> (string \<times> stored_note option) list"
  parseFrontmatter :: "string \<Rightarrow> string option"

subsection \<open>dateCompletion\<close>

text \<open>\<^verbatim>\<open>word.text.replace(/^\[\[/, "")\<close>\<close>

definition strip_open :: "string \<Rightarrow> string" where
  "strip_open s = (if take 2 s = ''[['' then drop 2 s else s)"

definition dateCompletion :: "collaborators \<Rightarrow> completion_context \<Rightarrow> completion_result option" where
  "dateCompletion env ctx =
     (case matchBefore date_re ctx of
        None \<Rightarrow> None
      | Some word \<Rightarrow>
          (let query = strip_open (match_text word)
           in if query = [] then None
              else (case parseDate env query of
                      None \<Rightarrow> None
                    | Some date \<Rightarrow>
                        (let year = padStart 4 (toString_int (getFullYear date));
                             month = padStart 2 (toString_int (getMonth date + 1));
                             day = padStart 2 (toString_int (getDate date));
                             dateString = year @ ''-'' @ month @ ''-'' @ day
                         in Some \<lparr>result_from = match_from word,
                                  options =
                                    [\<lparr>label = formatDate env dateString,
                                      detail = Some (formatDateDistance env dateString),
                                      info = None,
                                      apply_fn = Some (date_apply dateString)\<rparr>],
                                  filter_flag = Some False\<rparr>))))"

subsection \<open>tagCompletion\<close>

definition tagCompletion :: "collaborators \<Rightarrow> completion_context \<Rightarrow> completion_result option" where
  "tagCompletion env ctx =
     (case matchBefore tag_re ctx of
        None \<Rightarrow> None
      | Some word \<Rightarrow>
          Some \<lparr>result_from = match_from word + 1,
                options = map (\<lambda>name. \<lparr>label = name, detail = None, info = None, apply_fn = None\<rparr>)
                            (tagNames env),
                filter_flag = None\<rparr>)"

subsection \<open>noteCompletion\<close>

text \<open>The option built for one search result \<^verbatim>\<open>[id, note]\<close>.\<close>

definition note_option :: "collaborators \<Rightarrow> string \<times> stored_note option \<Rightarrow> completion" where
  "note_option env r =
     (case r of (ident, n) \<Rightarrow>
        (let content = parseFrontmatter env (case n of None \<Rightarrow> [] | Some m \<Rightarrow> rawBody m)
         in \<lparr>label = (case content of None \<Rightarrow> [] | Some c \<Rightarrow> c),
             detail = None,
             info = content,
             apply_fn = Some (note_apply ident n)\<rparr>))"

definition noteCompletion :: "collaborators \<Rightarrow> completion_context \<Rightarrow> completion_result option" where
  "noteCompletion env ctx =
     (case matchBefore note_re ctx of
        None \<Rightarrow> None
      | Some word \<Rightarrow>
          (let query = drop 2 (match_text word);
               searchResults = searchNotes env query;
               listed = map (note_option env) (take 5 searchResults)
           in Some \<lparr>result_from = match_from word,
                    options = (if query \<noteq> [] then listed @ [createNewNoteOption query] else listed),
                    filter_flag = Some False\<rparr>))"

section \<open>The paste handler\<close>






section \<open>Auxiliary definitions\<close>

text \<open>
  The two values \<^verbatim>\<open>start\<close> and \<^verbatim>\<open>str\<close> of \<open>matchBefore\<close>, which do not depend on the
  expression.
\<close>

definition window_start :: "completion_context \<Rightarrow> nat" where
  "window_start ctx = max (pos ctx - length (line_before ctx)) (pos ctx - 250)"

definition window :: "completion_context \<Rightarrow> string" where
  "window ctx =
     drop (window_start ctx - (pos ctx - length (line_before ctx))) (line_before ctx)"


text \<open>A small environment on which the definitions can be run.\<close>

definition example_env :: collaborators where
  "example_env =
     \<lparr>parseDate = (\<lambda>q. if q = ''tomorrow''
                        then Some \<lparr>getFullYear = 2024, getMonth = 0, getDate = 5\<rparr> else None),
      formatDate = (\<lambda>s. s),
      formatDateDistance = (\<lambda>s. s),
      tagNames = [''project'', ''project/lumen'', ''inbox''],
      searchNotes = (\<lambda>q. [(''17'', Some \<lparr>rawBody = ''# Hello'', title = Some ''Hello''\<rparr>),
                          (''18'', Some \<lparr>rawBody = ''plain'', title = None\<rparr>)]),
      parseFrontmatter = Some\<rparr>"

definition example_state :: "string \<Rightarrow> editor_state" where
  "example_state d = \<lparr>doc = d, ranges = [], mainIndex = 0\<rparr>"

definition example_world :: "string \<Rightarrow> world" where
  "example_world d = \<lparr>view = example_state d, now = 42, upserted = []\<rparr>"

section \<open>Helper lemmas\<close>

declare decimal_digits.simps [simp del]

lemma sliceString_two: "sliceString d to (to + 2) = take 2 (drop to d)"
  by (simp add: sliceString_def)

lemma take2_drop_pair:
  "take 2 (drop n d) = [a, b] \<longleftrightarrow> n + 2 \<le> length d \<and> d ! n = a \<and> d ! (n + 1) = b"
proof (induction d arbitrary: n)
  case Nil
  then show ?case by simp
next
  case (Cons x xs)
  show ?case
  proof (cases n)
    case 0
    then show ?thesis by (cases xs) (auto simp: numeral_2_eq_2)
  next
    case (Suc k)
    with Cons.IH [of k] show ?thesis by simp
  qed
qed

lemma hasClosingBrackets_iff:
  "hasClosingBrackets s to \<longleftrightarrow> take 2 (drop to (doc s)) = '']]''"
  by (simp only: hasClosingBrackets_def sliceDoc_def sliceString_two)

lemma insertReference_doc:
  "doc (insertReference text s from to) = take from (doc s) @ text @ drop (consumedTo s to) (doc s)"
  by (simp add: insertReference_def dispatch_def)

lemma insertReference_cursor:
  "ranges (insertReference text s from to) = [\<lparr>anchor = from + length text, head = from + length text\<rparr>]
   \<and> mainIndex (insertReference text s from to) = 0"
  by (simp add: insertReference_def dispatch_def)

lemma date_apply_eq:
  "date_apply dateString w from to =
     w\<lparr>view := insertReference (''[['' @ dateString @ '']]'') (view w) from to\<rparr>"
  by (simp add: date_apply_def insertReference_def consumedTo_def Let_def)

lemma note_apply_eq:
  "note_apply ident n w from to =
     w\<lparr>view := insertReference (''[['' @ ident @ title_suffix n @ '']]'') (view w) from to\<rparr>"
  by (simp add: note_apply_def insertReference_def consumedTo_def Let_def)

lemma create_apply_eq:
  "create_apply query w from to =
     w\<lparr>view := insertReference (''[['' @ toString_nat (now w) @ ''|'' @ query @ '']]'')
                  (view w) from to,
       upserted := upserted w @
         [\<lparr>draft_id = toString_nat (now w),
           draft_rawBody = ''# '' @ query @ [CHR 0x0A, CHR 0x0A] @ ''#inbox''\<rparr>]\<rparr>"
  by (simp add: create_apply_def insertReference_def consumedTo_def Let_def)

lemma search_Some:
  "search re s = Some i \<Longrightarrow> i \<le> length s \<and> re (drop i s) \<and> (\<forall>j<i. \<not> re (drop j s))"
proof (induction s arbitrary: i)
  case Nil
  then show ?case by (simp split: if_splits)
next
  case (Cons c cs)
  show ?case
  proof (cases "re (c # cs)")
    case True
    with Cons.prems show ?thesis by simp
  next
    case False
    with Cons.prems obtain k where k: "search re cs = Some k" and i: "i = Suc k"
      by auto
    from Cons.IH [OF k] have ih: "k \<le> length cs" "re (drop k cs)" "\<forall>j<k. \<not> re (drop j cs)"
      by simp_all
    have "\<not> re (drop j (c # cs))" if "j < i" for j
    proof (cases j)
      case 0
      with False show ?thesis by simp
    next
      case (Suc m)
      with that i ih(3) show ?thesis by simp
    qed
    with ih i show ?thesis by simp
  qed
qed




lemma line_before_length: "length (line_before ctx) \<le> pos ctx"
proof -
  have "length (line_before ctx) \<le> length (take (pos ctx) (documentText ctx))"
    unfolding line_before_def by (simp add: length_takeWhile_le [THEN order_trans])
  then show ?thesis by simp
qed


lemma matchBefore_window:
  "matchBefore re ctx =
     (case search re (window ctx) of
        None \<Rightarrow> None
      | Some found \<Rightarrow>
          Some \<lparr>match_from = window_start ctx + found, match_to = pos ctx,
                match_text = drop found (window ctx)\<rparr>)"
  unfolding matchBefore_def window_def window_start_def Let_def
  by (rule refl)

lemma window_length: "window_start ctx + length (window ctx) = pos ctx"
  using line_before_length [of ctx]
  by (simp add: window_def window_start_def max_def)


lemma matchBefore_SomeD:
  assumes "matchBefore re ctx = Some m"
  shows "re (match_text m) \<and> match_to m = pos ctx
         \<and> match_from m + length (match_text m) = pos ctx"
proof -
  from assms obtain found where f: "search re (window ctx) = Some found"
    and m: "m = \<lparr>match_from = window_start ctx + found, match_to = pos ctx,
                 match_text = drop found (window ctx)\<rparr>"
    by (auto simp: matchBefore_window split: option.splits)
  from search_Some [OF f] have "found \<le> length (window ctx)" "re (drop found (window ctx))"
    by simp_all
  with m window_length [of ctx] show ?thesis by simp
qed


lemma tag_re_nonempty: "tag_re s \<Longrightarrow> \<exists>run. s = CHR ''#'' # run \<and> list_all tag_char run"
  by (cases s) (auto simp: tag_re_def)

lemma note_re_shape: "note_re s \<Longrightarrow> \<exists>run. s = ''[['' @ run \<and> list_all link_char run"
proof -
  assume a: "note_re s"
  then have "take 2 s = ''[[''" "list_all link_char (drop 2 s)" by (simp_all add: note_re_def)
  moreover have "s = take 2 s @ drop 2 s" by simp
  ultimately show ?thesis by metis
qed




section \<open>Verified properties\<close>

text \<open>
  C1. The end of the replaced span is \<open>to + 2\<close> exactly when the two characters of the
  document at offsets \<open>to\<close> and \<open>to + 1\<close> are both a closing bracket, and \<open>to\<close>
  otherwise; the value depends on the document text alone. The date, note-link and
  create-note callbacks all replace the span from \<open>from\<close> to that end.
\<close>

theorem bracket_consumption:
  "consumedTo s to =
     (if to + 2 \<le> length (doc s) \<and> doc s ! to = CHR '']'' \<and> doc s ! (to + 1) = CHR '']''
      then to + 2 else to)
   \<and> view (date_apply dateString w from to) =
       insertReference (''[['' @ dateString @ '']]'') (view w) from to
   \<and> view (note_apply ident n w from to) =
       insertReference (''[['' @ ident @ title_suffix n @ '']]'') (view w) from to
   \<and> view (create_apply query w from to) =
       insertReference (''[['' @ toString_nat (now w) @ ''|'' @ query @ '']]'') (view w) from to
   \<and> doc (insertReference text s from to) =
       take from (doc s) @ text @ drop (consumedTo s to) (doc s)"
  using take2_drop_pair [of to "doc s" "CHR '']''" "CHR '']''"]
  by (simp add: consumedTo_def hasClosingBrackets_iff date_apply_eq note_apply_eq
      create_apply_eq insertReference_doc)

theorem bracket_consumption_witness:
  "consumedTo (example_state ''[[ab]]'') 4 = 6
   \<and> consumedTo (example_state ''[[ab]x'') 4 = 4
   \<and> consumedTo (example_state ''[[ab]'') 4 = 4"
  using bracket_consumption [of "example_state ''[[ab]]''" 4]
    bracket_consumption [of "example_state ''[[ab]x''" 4]
    bracket_consumption [of "example_state ''[[ab]''" 4]
  by (simp add: example_state_def)

text \<open>
  C3. The class \<^verbatim>\<open>[^\]|^|]\<close> also excludes the caret. On the document \<^verbatim>\<open>[[a^b\<close> with
  the cursor at its end the note provider's expression matches nothing, and the date
  provider's expression matches only the final \<^verbatim>\<open>b\<close>.
\<close>

theorem caret_excluded_from_run:
  "matchBefore note_re \<lparr>documentText = ''[[a^b'', pos = 5\<rparr> = None
   \<and> noteCompletion example_env \<lparr>documentText = ''[[a^b'', pos = 5\<rparr> = None
   \<and> matchBefore date_re \<lparr>documentText = ''[[a^b'', pos = 5\<rparr>
       = Some \<lparr>match_from = 4, match_to = 5, match_text = ''b''\<rparr>"
  by (simp add: noteCompletion_def matchBefore_def line_before_def note_re_def date_re_def
      link_char_def word_char_def Let_def)

text \<open>
  C9. Whenever one of the three providers returns a result, its anchor offset is at most
  the cursor offset of the context.
\<close>

theorem anchor_le_cursor:
  "(\<forall>r. dateCompletion env ctx = Some r \<longrightarrow> result_from r \<le> pos ctx)
   \<and> (\<forall>r. noteCompletion env ctx = Some r \<longrightarrow> result_from r \<le> pos ctx)
   \<and> (\<forall>r. tagCompletion env ctx = Some r \<longrightarrow> result_from r \<le> pos ctx)"
proof (intro conjI allI impI)
  fix r assume "dateCompletion env ctx = Some r"
  then obtain m where "matchBefore date_re ctx = Some m" "result_from r = match_from m"
    by (auto simp: dateCompletion_def Let_def split: option.splits if_splits)
  with matchBefore_SomeD [of date_re ctx m] show "result_from r \<le> pos ctx" by simp
next
  fix r assume "noteCompletion env ctx = Some r"
  then obtain m where "matchBefore note_re ctx = Some m" "result_from r = match_from m"
    by (auto simp: noteCompletion_def Let_def split: option.splits if_splits)
  with matchBefore_SomeD [of note_re ctx m] show "result_from r \<le> pos ctx" by simp
next
  fix r assume "tagCompletion env ctx = Some r"
  then obtain m where m: "matchBefore tag_re ctx = Some m" "result_from r = match_from m + 1"
    by (auto simp: tagCompletion_def split: option.splits)
  from matchBefore_SomeD [OF m(1)] have "tag_re (match_text m)"
    "match_from m + length (match_text m) = pos ctx" by simp_all
  moreover from this(1) have "length (match_text m) \<ge> 1"
    using tag_re_nonempty by fastforce
  ultimately show "result_from r \<le> pos ctx" using m(2) by simp
qed


theorem anchor_le_cursor_witness:
  "dateCompletion example_env \<lparr>documentText = ''see [[tomorrow'', pos = 14\<rparr> \<noteq> None
   \<and> result_from (the (dateCompletion example_env
          \<lparr>documentText = ''see [[tomorrow'', pos = 14\<rparr>)) \<le> 14
   \<and> noteCompletion example_env \<lparr>documentText = ''see [[he'', pos = 8\<rparr> \<noteq> None
   \<and> result_from (the (noteCompletion example_env
          \<lparr>documentText = ''see [[he'', pos = 8\<rparr>)) \<le> 8
   \<and> tagCompletion example_env \<lparr>documentText = ''a #pro'', pos = 6\<rparr> \<noteq> None
   \<and> result_from (the (tagCompletion example_env \<lparr>documentText = ''a #pro'', pos = 6\<rparr>)) \<le> 6"
proof -
  have d: "dateCompletion example_env \<lparr>documentText = ''see [[tomorrow'', pos = 14\<rparr> \<noteq> None"
    by (simp add: dateCompletion_def matchBefore_def line_before_def note_re_def date_re_def
        link_char_def word_char_def Let_def strip_open_def example_env_def)
  have n: "noteCompletion example_env \<lparr>documentText = ''see [[he'', pos = 8\<rparr> \<noteq> None"
    by (simp add: noteCompletion_def matchBefore_def line_before_def note_re_def
        link_char_def Let_def)
  have t: "tagCompletion example_env \<lparr>documentText = ''a #pro'', pos = 6\<rparr> \<noteq> None"
    by (simp add: tagCompletion_def matchBefore_def line_before_def tag_re_def tag_char_def
        decimal_char_def word_char_def Let_def)
  from d n t
    anchor_le_cursor [of example_env "\<lparr>documentText = ''see [[tomorrow'', pos = 14\<rparr>"]
    anchor_le_cursor [of example_env "\<lparr>documentText = ''see [[he'', pos = 8\<rparr>"]
    anchor_le_cursor [of example_env "\<lparr>documentText = ''a #pro'', pos = 6\<rparr>"]
  show ?thesis by auto
qed










lemma note_apply_not_create: "note_apply ident n \<noteq> create_apply q"
proof
  assume "note_apply ident n = create_apply q"
  then have "upserted (note_apply ident n (example_world []) 0 0)
               = upserted (create_apply q (example_world []) 0 0)"
    by simp
  then show False
    by (simp add: note_apply_eq create_apply_eq example_world_def)
qed

lemma note_option_not_create: "note_option env r \<noteq> createNewNoteOption q"
proof
  assume "note_option env r = createNewNoteOption q"
  then have "apply_fn (note_option env r) = apply_fn (createNewNoteOption q)"
    by simp
  then show False
    using note_apply_not_create
    by (cases r) (simp add: note_option_def createNewNoteOption_def Let_def)
qed

lemma create_not_listed: "createNewNoteOption q \<notin> set (map (note_option env) rs)"
proof
  assume "createNewNoteOption q \<in> set (map (note_option env) rs)"
  then obtain r where "note_option env r = createNewNoteOption q" by auto
  with note_option_not_create [of env r q] show False by simp
qed







lemma noteCompletion_Some:
  assumes "matchBefore note_re ctx = Some word"
  shows "noteCompletion env ctx
           = Some \<lparr>result_from = match_from word,
                   options =
                     (if drop 2 (match_text word) \<noteq> []
                      then map (note_option env)
                             (take 5 (searchNotes env (drop 2 (match_text word))))
                           @ [createNewNoteOption (drop 2 (match_text word))]
                      else map (note_option env)
                             (take 5 (searchNotes env (drop 2 (match_text word))))),
                   filter_flag = Some False\<rparr>"
  using assms by (simp add: noteCompletion_def Let_def)



lemma example_note_match:
  "matchBefore note_re \<lparr>documentText = ''see [[he'', pos = 8\<rparr>
     = Some \<lparr>match_from = 4, match_to = 8, match_text = ''[[he''\<rparr>"
  by (simp add: matchBefore_def line_before_def note_re_def link_char_def Let_def)

lemma example_search:
  "searchNotes example_env q
     = [(''17'', Some \<lparr>rawBody = ''# Hello'', title = Some ''Hello''\<rparr>),
        (''18'', Some \<lparr>rawBody = ''plain'', title = None\<rparr>)]"
  by (simp add: example_env_def)



text \<open>
  C6. When the note expression matches with query \<open>q\<close> (the matched text without its
  first two characters), the options are exactly the listed options when \<open>q\<close> is empty,
  and the listed options followed by the one option \<open>createNewNoteOption q\<close> otherwise;
  no listed option is a create-new-note option. That option is labelled
  \<^verbatim>\<open>Create new note "q"\<close>; its callback calls \<^verbatim>\<open>upsertNote\<close> once, with the note whose id is
  the decimal string of the clock reading and whose body is \<^verbatim>\<open># q\<close>, two line breaks and
  \<^verbatim>\<open>#inbox\<close>, replaces the span from \<open>from\<close> to the bracket-consumption end by
  \<^verbatim>\<open>[[id|q]]\<close> and puts the cursor after the inserted text.
\<close>

theorem create_note_option:
  assumes "matchBefore note_re ctx = Some word"
  shows "\<exists>r. noteCompletion env ctx = Some r
           \<and> (drop 2 (match_text word) = [] \<longrightarrow>
                options r = map (note_option env) (take 5 (searchNotes env [])))
           \<and> (drop 2 (match_text word) \<noteq> [] \<longrightarrow>
                options r
                  = map (note_option env) (take 5 (searchNotes env (drop 2 (match_text word))))
                    @ [createNewNoteOption (drop 2 (match_text word))])
           \<and> (\<forall>q rs. createNewNoteOption q \<notin> set (map (note_option env) rs))
           \<and> (\<forall>q. label (createNewNoteOption q)
                      = ''Create new note '' @ [CHR 0x22] @ q @ [CHR 0x22]
                 \<and> (\<exists>f. apply_fn (createNewNoteOption q) = Some f
                       \<and> (\<forall>w from to.
                             upserted (f w from to)
                               = upserted w
                                 @ [\<lparr>draft_id = toString_nat (now w),
                                     draft_rawBody
                                       = ''# '' @ q @ [CHR 0x0A, CHR 0x0A] @ ''#inbox''\<rparr>]
                           \<and> doc (view (f w from to))
                               = take from (doc (view w))
                                 @ ''[['' @ toString_nat (now w) @ ''|'' @ q @ '']]''
                                 @ drop (consumedTo (view w) to) (doc (view w))
                           \<and> ranges (view (f w from to))
                               = [\<lparr>anchor = from + length (''[['' @ toString_nat (now w)
                                                              @ ''|'' @ q @ '']]''),
                                   head = from + length (''[['' @ toString_nat (now w)
                                                            @ ''|'' @ q @ '']]'')\<rparr>]
                           \<and> mainIndex (view (f w from to)) = 0)))"
proof -
  let ?q = "drop 2 (match_text word)"
  let ?listed = "map (note_option env) (take 5 (searchNotes env ?q))"
  let ?r = "\<lparr>result_from = match_from word,
            options = (if ?q \<noteq> [] then ?listed @ [createNewNoteOption ?q] else ?listed),
            filter_flag = Some False\<rparr>"
  have r: "noteCompletion env ctx = Some ?r"
    by (rule noteCompletion_Some [OF assms])
  have e: "?q = [] \<longrightarrow> options ?r = map (note_option env) (take 5 (searchNotes env []))"
    by simp
  have n: "?q \<noteq> [] \<longrightarrow> options ?r = ?listed @ [createNewNoteOption ?q]"
    by simp
  have u: "\<forall>q rs. createNewNoteOption q \<notin> set (map (note_option env) rs)"
    using create_not_listed by blast
  have c: "\<forall>q. label (createNewNoteOption q)
                      = ''Create new note '' @ [CHR 0x22] @ q @ [CHR 0x22]
                 \<and> (\<exists>f. apply_fn (createNewNoteOption q) = Some f
                       \<and> (\<forall>w from to.
                             upserted (f w from to)
                               = upserted w
                                 @ [\<lparr>draft_id = toString_nat (now w),
                                     draft_rawBody
                                       = ''# '' @ q @ [CHR 0x0A, CHR 0x0A] @ ''#inbox''\<rparr>]
                           \<and> doc (view (f w from to))
                               = take from (doc (view w))
                                 @ ''[['' @ toString_nat (now w) @ ''|'' @ q @ '']]''
                                 @ drop (consumedTo (view w) to) (doc (view w))
                           \<and> ranges (view (f w from to))
                               = [\<lparr>anchor = from + length (''[['' @ toString_nat (now w)
                                                              @ ''|'' @ q @ '']]''),
                                   head = from + length (''[['' @ toString_nat (now w)
                                                            @ ''|'' @ q @ '']]'')\<rparr>]
                           \<and> mainIndex (view (f w from to)) = 0))"
    by (simp add: createNewNoteOption_def create_apply_eq insertReference_doc
        insertReference_cursor)
  from r e n u c show ?thesis
    by (intro exI [of _ ?r] conjI)
qed

theorem create_note_option_witness:
  "\<exists>r f. noteCompletion example_env \<lparr>documentText = ''see [[he'', pos = 8\<rparr> = Some r
     \<and> options r
         = [note_option example_env
              (''17'', Some \<lparr>rawBody = ''# Hello'', title = Some ''Hello''\<rparr>),
            note_option example_env (''18'', Some \<lparr>rawBody = ''plain'', title = None\<rparr>),
            createNewNoteOption ''he'']
     \<and> apply_fn (createNewNoteOption ''he'') = Some f
     \<and> upserted (f \<lparr>view = example_state ''see [[he]] ok'', now = 1700000000000,
                     upserted = []\<rparr> 4 8)
         = [\<lparr>draft_id = ''1700000000000'',
             draft_rawBody = ''# he'' @ [CHR 0x0A, CHR 0x0A] @ ''#inbox''\<rparr>]
     \<and> doc (view (f \<lparr>view = example_state ''see [[he]] ok'', now = 1700000000000,
                      upserted = []\<rparr> 4 8))
         = ''see [[1700000000000|he]] ok''"
proof -
  let ?ctx = "\<lparr>documentText = ''see [[he'', pos = 8\<rparr>"
  let ?word = "\<lparr>match_from = 4, match_to = 8, match_text = ''[[he''\<rparr>"
  let ?w = "\<lparr>view = example_state ''see [[he]] ok'', now = 1700000000000, upserted = []\<rparr>"
  have s: "toString_nat 1700000000000 = ''1700000000000''"
    by (simp add: toString_nat_def decimal_digits.simps digit_char_def)
  have e: "consumedTo (example_state ''see [[he]] ok'') 8 = 10"
    by (simp add: consumedTo_def hasClosingBrackets_def sliceDoc_def sliceString_def
        example_state_def)
  from create_note_option [OF example_note_match, of example_env]
  obtain r where r: "noteCompletion example_env ?ctx = Some r"
    and n: "drop 2 (match_text ?word) \<noteq> [] \<longrightarrow>
              options r
                = map (note_option example_env)
                    (take 5 (searchNotes example_env (drop 2 (match_text ?word))))
                  @ [createNewNoteOption (drop 2 (match_text ?word))]"
    and c: "\<forall>q. label (createNewNoteOption q)
                      = ''Create new note '' @ [CHR 0x22] @ q @ [CHR 0x22]
                 \<and> (\<exists>f. apply_fn (createNewNoteOption q) = Some f
                       \<and> (\<forall>w from to.
                             upserted (f w from to)
                               = upserted w
                                 @ [\<lparr>draft_id = toString_nat (now w),
                                     draft_rawBody
                                       = ''# '' @ q @ [CHR 0x0A, CHR 0x0A] @ ''#inbox''\<rparr>]
                           \<and> doc (view (f w from to))
                               = take from (doc (view w))
                                 @ ''[['' @ toString_nat (now w) @ ''|'' @ q @ '']]''
                                 @ drop (consumedTo (view w) to) (doc (view w))
                           \<and> ranges (view (f w from to))
                               = [\<lparr>anchor = from + length (''[['' @ toString_nat (now w)
                                                              @ ''|'' @ q @ '']]''),
                                   head = from + length (''[['' @ toString_nat (now w)
                                                            @ ''|'' @ q @ '']]'')\<rparr>]
                           \<and> mainIndex (view (f w from to)) = 0))"
    by (elim exE conjE) (rule that)
  from c obtain f where f: "apply_fn (createNewNoteOption ''he'') = Some f"
    and u: "upserted (f ?w 4 8)
              = upserted ?w
                @ [\<lparr>draft_id = toString_nat (now ?w),
                    draft_rawBody = ''# '' @ ''he'' @ [CHR 0x0A, CHR 0x0A] @ ''#inbox''\<rparr>]"
    and d: "doc (view (f ?w 4 8))
              = take 4 (doc (view ?w)) @ ''[['' @ toString_nat (now ?w) @ ''|'' @ ''he'' @ '']]''
                @ drop (consumedTo (view ?w) 8) (doc (view ?w))"
    by blast
  from n have o: "options r
         = [note_option example_env
              (''17'', Some \<lparr>rawBody = ''# Hello'', title = Some ''Hello''\<rparr>),
            note_option example_env (''18'', Some \<lparr>rawBody = ''plain'', title = None\<rparr>),
            createNewNoteOption ''he'']"
    by (simp add: example_search)
  from u s have u': "upserted (f ?w 4 8)
         = [\<lparr>draft_id = ''1700000000000'',
             draft_rawBody = ''# he'' @ [CHR 0x0A, CHR 0x0A] @ ''#inbox''\<rparr>]"
    by simp
  from d s e have d': "doc (view (f ?w 4 8)) = ''see [[1700000000000|he]] ok''"
    by (simp add: example_state_def)
  from r o f u' d' show ?thesis by blast
qed








lemma consumedTo_at_brackets:
  assumes "doc s = pre @ mid @ '']]'' @ rest"
  shows "consumedTo s (length pre + length mid) = length pre + length mid + 2"
proof -
  have "drop (length pre + length mid) (doc s) = '']]'' @ rest"
    using assms by simp
  then have "take 2 (drop (length pre + length mid) (doc s)) = '']]''"
    by simp
  then show ?thesis
    by (simp add: consumedTo_def hasClosingBrackets_iff)
qed

lemma consumedTo_no_brackets:
  assumes "doc s = pre @ t @ rest" and "take 1 rest \<noteq> '']''"
  shows "consumedTo s (length pre + length t) = length pre + length t"
proof -
  have "drop (length pre + length t) (doc s) = rest"
    using assms(1) by simp
  moreover have "take 2 rest \<noteq> '']]''"
  proof
    assume "take 2 rest = '']]''"
    then have "take 1 (take 2 rest) = '']''" by simp
    then have "take 1 rest = '']''" by (simp add: min_def)
    with assms(2) show False by simp
  qed
  ultimately show ?thesis
    by (simp add: consumedTo_def hasClosingBrackets_iff)
qed

lemma insertReference_consume:
  assumes "doc s = pre @ mid @ '']]'' @ rest"
  shows "insertReference t s (length pre) (length pre + length mid)
           = \<lparr>doc = pre @ t @ rest,
              ranges = [\<lparr>anchor = length pre + length t, head = length pre + length t\<rparr>],
              mainIndex = 0\<rparr>"
proof -
  have "drop (length pre + length mid + 2) (doc s) = rest"
    using assms by simp
  moreover have "take (length pre) (doc s) = pre"
    using assms by simp
  ultimately show ?thesis
    using consumedTo_at_brackets [OF assms]
    by (simp add: insertReference_def dispatch_def)
qed

lemma insertReference_keep:
  assumes "doc s = pre @ t0 @ rest" and "take 1 rest \<noteq> '']''"
  shows "insertReference t s (length pre) (length pre + length t0)
           = \<lparr>doc = pre @ t @ rest,
              ranges = [\<lparr>anchor = length pre + length t, head = length pre + length t\<rparr>],
              mainIndex = 0\<rparr>"
proof -
  have "drop (length pre + length t0) (doc s) = rest"
    using assms(1) by simp
  moreover have "take (length pre) (doc s) = pre"
    using assms(1) by simp
  ultimately show ?thesis
    using consumedTo_no_brackets [OF assms]
    by (simp add: insertReference_def dispatch_def)
qed

lemma reference_again:
  assumes "doc s = pre @ mid @ '']]'' @ rest" and "take 1 rest \<noteq> '']''"
    and "s1 = insertReference (''[['' @ body @ '']]'') s (length pre) (length pre + length mid)"
    and "to2 = length pre + length body + 4 \<or> to2 = length pre + length body + 2"
  shows "doc s1 = pre @ ''[['' @ body @ '']]'' @ rest
         \<and> insertReference (''[['' @ body @ '']]'') s1 (length pre) to2 = s1"
proof -
  let ?t = "''[['' @ body @ '']]''"
  have s1: "s1 = \<lparr>doc = pre @ ?t @ rest,
                  ranges = [\<lparr>anchor = length pre + length ?t, head = length pre + length ?t\<rparr>],
                  mainIndex = 0\<rparr>"
    using insertReference_consume [OF assms(1)] assms(3) by simp
  then have d1: "doc s1 = pre @ ?t @ rest" by simp
  from assms(4) have "insertReference ?t s1 (length pre) to2 = s1"
  proof
    assume "to2 = length pre + length body + 4"
    then have e: "to2 = length pre + length ?t" by simp
    show ?thesis
      using insertReference_keep [OF d1 assms(2), of ?t] s1 unfolding e by simp
  next
    assume "to2 = length pre + length body + 2"
    then have e: "to2 = length pre + length (''[['' @ body)" by simp
    have d2: "doc s1 = pre @ (''[['' @ body) @ '']]'' @ rest"
      using d1 by simp
    show ?thesis
      using insertReference_consume [OF d2, of ?t] s1 unfolding e by simp
  qed
  with d1 show ?thesis by simp
qed

text \<open>
  C8. Let the replaced span be followed by exactly two closing brackets (and no third),
  and let \<open>f\<close> be the callback of a date, note-link or create-note option, \<open>body\<close> being
  what it writes between the brackets. The first application consumes the two brackets:
  the document then holds \<^verbatim>\<open>[[body]]\<close> followed by what came after them. Applying the same
  callback again (at the same clock reading), either over the whole inserted reference or
  with the cursor just before its closing brackets, leaves the widget as it is; the run
  of closing brackets that ends the reference has length 2.
\<close>

theorem bracket_idempotence:
  assumes "doc (view w) = pre @ mid @ '']]'' @ rest" and "take 1 rest \<noteq> '']''"
    and "(f = date_apply dateString \<and> body = dateString)
         \<or> (f = note_apply ident n \<and> body = ident @ title_suffix n)
         \<or> (f = create_apply q \<and> body = toString_nat (now w) @ ''|'' @ q)"
    and "w1 = f w (length pre) (length pre + length mid)"
    and "to2 = length pre + length body + 4 \<or> to2 = length pre + length body + 2"
  shows "doc (view w1) = pre @ ''[['' @ body @ '']]'' @ rest
         \<and> view (f w1 (length pre) to2) = view w1
         \<and> takeWhile (\<lambda>c. c = CHR '']'')
              (drop (length pre + 2 + length body) (doc (view (f w1 (length pre) to2))))
             = '']]''"
proof -
  let ?t = "''[['' @ body @ '']]''"
  have v: "view (f x a b) = insertReference ?t (view x) a b"
    if "now x = now w" for x a b
    using assms(3) that
    by (auto simp: date_apply_eq note_apply_eq create_apply_eq)
  have n1: "now w1 = now w"
    using assms(3,4) by (auto simp: date_apply_eq note_apply_eq create_apply_eq)
  have s1: "view w1 = insertReference ?t (view w) (length pre) (length pre + length mid)"
    using v [of w] assms(4) by simp
  from reference_again [OF assms(1,2) s1 assms(5)]
  have d1: "doc (view w1) = pre @ ?t @ rest"
    and again: "insertReference ?t (view w1) (length pre) to2 = view w1"
    by simp_all
  have same: "view (f w1 (length pre) to2) = view w1"
    using v [OF n1] again by simp
  have "drop (length pre + 2 + length body) (doc (view w1)) = '']]'' @ rest"
    using d1 by simp
  moreover have "takeWhile (\<lambda>c. c = CHR '']'') rest = []"
    using assms(2) by (cases rest) auto
  ultimately have "takeWhile (\<lambda>c. c = CHR '']'')
                     (drop (length pre + 2 + length body) (doc (view w1))) = '']]''"
    by simp
  with d1 same show ?thesis by simp
qed

theorem bracket_idempotence_witness:
  "doc (view (date_apply ''2024-01-05'' (example_world ''see [[tom]] ok'') 4 9))
     = ''see [[2024-01-05]] ok''
   \<and> view (date_apply ''2024-01-05''
        (date_apply ''2024-01-05'' (example_world ''see [[tom]] ok'') 4 9) 4 18)
     = view (date_apply ''2024-01-05'' (example_world ''see [[tom]] ok'') 4 9)
   \<and> view (date_apply ''2024-01-05''
        (date_apply ''2024-01-05'' (example_world ''see [[tom]] ok'') 4 9) 4 16)
     = view (date_apply ''2024-01-05'' (example_world ''see [[tom]] ok'') 4 9)"
proof -
  let ?w = "example_world ''see [[tom]] ok''"
  let ?f = "date_apply ''2024-01-05''"
  have d: "doc (view ?w) = ''see '' @ ''[[tom'' @ '']]'' @ '' ok''"
    by (simp add: example_world_def example_state_def)
  have r: "take 1 '' ok'' \<noteq> '']''" by simp
  have k: "(?f = date_apply ''2024-01-05'' \<and> ''2024-01-05'' = ''2024-01-05'')
         \<or> (?f = note_apply [] None \<and> ''2024-01-05'' = [] @ title_suffix None)
         \<or> (?f = create_apply [] \<and> ''2024-01-05'' = toString_nat (now ?w) @ ''|'' @ [])"
    by simp
  have l: "length ''see '' = 4" "length ''[[tom'' = 5"
    by simp_all
  have w1: "?f ?w 4 9 = ?f ?w (length ''see '') (length ''see '' + length ''[[tom'')"
    by (simp only: l) simp
  have a: "18 = length ''see '' + length ''2024-01-05'' + 4
           \<or> (18::nat) = length ''see '' + length ''2024-01-05'' + 2"
    by simp
  have b: "16 = length ''see '' + length ''2024-01-05'' + 4
           \<or> (16::nat) = length ''see '' + length ''2024-01-05'' + 2"
    by simp
  have x: "doc (view (?f ?w 4 9)) = ''see [[2024-01-05]] ok''"
    using bracket_idempotence [OF d r k w1 a] by simp
  have y: "view (?f (?f ?w 4 9) 4 18) = view (?f ?w 4 9)"
    using bracket_idempotence [OF d r k w1 a, unfolded l] by blast
  have z: "view (?f (?f ?w 4 9) 4 16) = view (?f ?w 4 9)"
    using bracket_idempotence [OF d r k w1 b, unfolded l] by blast
  from x y z show ?thesis by blast
qed

end
